theory Spec2Isabelle
  imports Main
begin

section \<open>The taskflow executor of xmonitor (xmonitor/async/taskflow\_executor.py)\<close>

text \<open>
  The executor is embedded with explicit state passing. A Python statement that may raise
  becomes a function returning \<open>exn option\<close> (\<open>None\<close>: it returned, \<open>Some e\<close>: it
  raised \<open>e\<close>) next to the state it leaves behind; a Python expression that may raise
  returns \<open>exn + 'a\<close>. The libraries the executor calls (script\_utils, stevedore,
  futurist, taskflow) are not part of the file: their outcomes are the fields of the
  record \<open>env\<close>.
\<close>

subsection \<open>Exceptions\<close>

text \<open>
  The instances of Python's \<open>Exception\<close> that the executor tells apart. Each constructor
  stands for an instance of the class of that name (or of a subclass), carrying the
  attribute the code reads: \<open>reason\<close> for URLError, \<open>msg\<close> for the classes of
  xmonitor.common.exception. \<open>RuntimeError d\<close> is an instance of RuntimeError with
  detail \<open>d\<close> raised by a library; \<open>NotImplementedError\<close> is the bare
  \<open>NotImplementedError()\<close> of line 103, which Python makes a subclass of RuntimeError.
  \<open>OtherException d\<close> is an instance of none of the classes named in the file.
\<close>

datatype exn =
    URLError string
  | BadStoreUri string
  | Invalid string
  | ImportTaskError string
  | RuntimeError string
  | NotImplementedError
  | NotAuthenticated
  | NotFound string
  | OtherException string

fun isinstance_RuntimeError :: "exn \<Rightarrow> bool" where
  "isinstance_RuntimeError (RuntimeError d) = True"
| "isinstance_RuntimeError NotImplementedError = True"
| "isinstance_RuntimeError e = False"

fun isinstance_ImportTaskError :: "exn \<Rightarrow> bool" where
  "isinstance_ImportTaskError (ImportTaskError m) = True"
| "isinstance_ImportTaskError e = False"

text \<open>\<open>encodeutils.exception_to_unicode\<close>: the text of an exception, for the log.\<close>

fun exception_to_unicode :: "exn \<Rightarrow> string" where
  "exception_to_unicode (URLError r) = r"
| "exception_to_unicode (BadStoreUri m) = m"
| "exception_to_unicode (Invalid m) = m"
| "exception_to_unicode (ImportTaskError m) = m"
| "exception_to_unicode (RuntimeError d) = d"
| "exception_to_unicode NotImplementedError = []"
| "exception_to_unicode NotAuthenticated = ''NotAuthenticated''"
| "exception_to_unicode (NotFound d) = d"
| "exception_to_unicode (OtherException d) = d"

subsection \<open>Task records, image records, pools, configuration\<close>

datatype task_status = Pending | Processing | Success | Failure

record task =
  task_id :: string
  task_type :: string
  status :: task_status
  message :: string
  task_input :: "(string \<times> string) list"

record image =
  image_id :: string
  image_status :: string
  locations :: "string list"

text \<open>
  Modelled from the spec: \<open>Task.fail\<close> of the domain class (xmonitor.domain is not among
  the sources). The record moves to the terminal status failure and carries the
  explanation as its message.
\<close>

definition fail :: "string \<Rightarrow> task \<Rightarrow> task" where
  "fail msg t = t\<lparr>status := Failure, message := msg\<rparr>"

text \<open>The two pool classes of futurist, each built with its \<open>max_workers\<close>.\<close>

datatype pool = GreenThreadPoolExecutor int | ThreadPoolExecutor int

text \<open>\<open>CONF.taskflow_executor\<close>.\<close>

record config =
  engine_mode :: string
  max_workers :: int

text \<open>
  \<open>invoke_kwds\<close> of the driver manager. The entries \<open>context\<close>, \<open>task_repo\<close>,
  \<open>image_repo\<close> and \<open>image_factory\<close> are the executor's own collaborators and are not
  repeated here.
\<close>

record kwds =
  uri :: string
  kw_task_id :: string
  kw_task_type :: string

text \<open>The flow object that the loaded driver hands back, and a loaded engine.\<close>

datatype flow = Flow string kwds

datatype engine = Engine flow string "pool option" int

text \<open>The two repositories, keyed by id.\<close>

type_synonym stores = "(string \<rightharpoonup> task) \<times> (string \<rightharpoonup> image)"

subsection \<open>Collaborators\<close>

record env =
  unpack_task_input :: "task \<Rightarrow> exn + (string \<times> string) list"
  validate_location_uri :: "string option \<Rightarrow> exn + string"
  driver_manager :: "string \<Rightarrow> kwds \<Rightarrow> exn + flow"
  green_thread_pool :: "int \<Rightarrow> exn option"
  thread_pool :: "int \<Rightarrow> exn option"
  engines_load :: "flow \<Rightarrow> string \<Rightarrow> pool option \<Rightarrow> int \<Rightarrow> exn option"
  engine_run :: "engine \<Rightarrow> stores \<Rightarrow> exn option \<times> stores"

subsection \<open>The observable state\<close>

datatype event =
    LogDebug string string
  | LogError string string
  | GetFlow string
  | NewGreenThreadPool int
  | NewThreadPool int
  | EngineLoad
  | EngineRun
  | TaskSave task
  | Shutdown pool
  | ImageSave image
  | Transfer string string
  | ImageGet string
  | DeleteLocation string string

record world =
  tasks :: "string \<rightharpoonup> task"
  images :: "string \<rightharpoonup> image"
  trace :: "event list"

definition emits :: "event list \<Rightarrow> world \<Rightarrow> world" where
  "emits evs w = w\<lparr>trace := trace w @ evs\<rparr>"

definition emit :: "event \<Rightarrow> world \<Rightarrow> world" where
  "emit ev w = emits [ev] w"

text \<open>
  Modelled from the spec: the task repository (section 6; its implementation is not among
  the sources). \<open>save\<close> stores the record under its id, last write wins; \<open>get\<close>
  returns the record or raises NotFound.
\<close>

definition save :: "task \<Rightarrow> world \<Rightarrow> world" where
  "save t w = emit (TaskSave t) (w\<lparr>tasks := (tasks w)(task_id t \<mapsto> t)\<rparr>)"

text \<open>
  Modelled from the spec: \<open>script_utils.get_task\<close> (xmonitor/common/scripts/utils.py is
  not among the sources). It returns the task, or \<open>None\<close> when the repository does not
  hold the id, which is the case the comment of lines 123 to 125 describes.
\<close>

definition get_task :: "world \<Rightarrow> string \<Rightarrow> task option" where
  "get_task w tid = tasks w tid"

subsection \<open>\<open>_fetch_an_executor\<close> (lines 65 to 77)\<close>

text \<open>
  The result, and the constructor calls made on the way (\<open>None\<close> from a collaborator:
  the constructor returned the pool).
\<close>

definition fetch_an_executor :: "config \<Rightarrow> env \<Rightarrow> (exn + pool option) \<times> event list" where
  "fetch_an_executor cfg env =
     (if engine_mode cfg \<noteq> ''parallel'' then (Inr None, [])
      else
        (case green_thread_pool env (max_workers cfg) of
           None \<Rightarrow>
             (Inr (Some (GreenThreadPoolExecutor (max_workers cfg))),
              [NewGreenThreadPool (max_workers cfg)])
         | Some e \<Rightarrow>
             if isinstance_RuntimeError e then
               (case thread_pool env (max_workers cfg) of
                  None \<Rightarrow>
                    (Inr (Some (ThreadPoolExecutor (max_workers cfg))),
                     [NewGreenThreadPool (max_workers cfg), NewThreadPool (max_workers cfg)])
                | Some e' \<Rightarrow>
                    (Inl e',
                     [NewGreenThreadPool (max_workers cfg), NewThreadPool (max_workers cfg)]))
             else (Inl e, [NewGreenThreadPool (max_workers cfg)])))"

subsection \<open>\<open>_get_flow\<close> (lines 79 to 103)\<close>

text \<open>
  The three \<open>except\<close> clauses, in the order of the source. The exception classes are
  declared in xmonitor.common.exception, which is not among the sources: the message given
  to the constructor of ImportTaskError is taken to be what its \<open>msg\<close> returns later.
\<close>

fun get_flow_except :: "exn \<Rightarrow> exn" where
  "get_flow_except (URLError r) = ImportTaskError r"
| "get_flow_except (BadStoreUri m) = ImportTaskError m"
| "get_flow_except (Invalid m) = ImportTaskError m"
| "get_flow_except (RuntimeError d) = NotImplementedError"
| "get_flow_except NotImplementedError = NotImplementedError"
| "get_flow_except e = e"

definition get_flow :: "env \<Rightarrow> task \<Rightarrow> exn + flow" where
  "get_flow env t =
     (case unpack_task_input env t of
        Inl e \<Rightarrow> Inl (get_flow_except e)
      | Inr inp \<Rightarrow>
          (case validate_location_uri env (map_of inp ''import_from'') of
             Inl e \<Rightarrow> Inl (get_flow_except e)
           | Inr u \<Rightarrow>
               (case driver_manager env (task_type t)
                       \<lparr>uri = u, kw_task_id = task_id t, kw_task_type = task_type t\<rparr> of
                  Inl e \<Rightarrow> Inl (get_flow_except e)
                | Inr f \<Rightarrow> Inr f)))"

subsection \<open>\<open>_run\<close> (lines 115 to 148)\<close>

definition internal_error :: string where
  "internal_error = ''Task failed due to Internal Error''"

text \<open>The \<open>finally\<close> clause.\<close>

definition release :: "pool option \<Rightarrow> world \<Rightarrow> world" where
  "release ex w = (case ex of None \<Rightarrow> w | Some p \<Rightarrow> emit (Shutdown p) w)"

text \<open>
  The \<open>except Exception\<close> clause: log, fail the task held in memory, save it;
  \<open>save_and_reraise_exception\<close> then raises the exception again.
\<close>

definition on_exception :: "task \<Rightarrow> exn \<Rightarrow> world \<Rightarrow> world" where
  "on_exception t e w =
     save (fail internal_error t) (emit (LogError (task_id t) (exception_to_unicode e)) w)"

text \<open>The \<open>try\<close> body: load the engine, then run it on the two repositories.\<close>

definition load_and_run ::
  "config \<Rightarrow> env \<Rightarrow> flow \<Rightarrow> pool option \<Rightarrow> world \<Rightarrow> exn option \<times> world" where
  "load_and_run cfg env f ex w =
     (case engines_load env f (engine_mode cfg) ex (max_workers cfg) of
        Some e \<Rightarrow> (Some e, emit EngineLoad w)
      | None \<Rightarrow>
          (let w1 = emit EngineRun (emit EngineLoad w);
               (r, (ts, is)) =
                  engine_run env (Engine f (engine_mode cfg) ex (max_workers cfg))
                    (tasks w1, images w1)
           in (r, w1\<lparr>tasks := ts, images := is\<rparr>)))"

definition run :: "config \<Rightarrow> env \<Rightarrow> world \<Rightarrow> string \<Rightarrow> string \<Rightarrow> exn option \<times> world" where
  "run cfg env w0 tid ty =
     (let w = emit (LogDebug tid ty) w0 in
      case get_task w tid of
        None \<Rightarrow> (None, w)
      | Some t \<Rightarrow>
          (case get_flow env t of
             Inl e \<Rightarrow> (Some e, emit (GetFlow tid) w)
           | Inr f \<Rightarrow>
               (case fetch_an_executor cfg env of
                  (Inl e, evs) \<Rightarrow> (Some e, emits evs (emit (GetFlow tid) w))
                | (Inr ex, evs) \<Rightarrow>
                    (case load_and_run cfg env f ex (emits evs (emit (GetFlow tid) w)) of
                       (None, w') \<Rightarrow> (None, release ex w')
                     | (Some e, w') \<Rightarrow> (Some e, release ex (on_exception t e w'))))))"

subsection \<open>\<open>begin_processing\<close> (lines 105 to 113)\<close>

text \<open>
  Modelled from the spec: \<open>begin_processing\<close> of the base class
  \<open>xmonitor.async.TaskExecutor\<close> (xmonitor/async/\_\_init\_\_.py is not among the
  sources). It loads the task record and returns silently when there is none; otherwise
  it sets the status processing, saves the record and dispatches to \<open>_run\<close> with the
  task's type. It has no handler of its own: what \<open>_run\<close> raises passes through it, which
  is what the \<open>except\<close> clause of the subclass relies on.
\<close>

definition base_begin_processing ::
  "config \<Rightarrow> env \<Rightarrow> world \<Rightarrow> string \<Rightarrow> exn option \<times> world" where
  "base_begin_processing cfg env w tid =
     (case tasks w tid of
        None \<Rightarrow> (None, w)
      | Some t \<Rightarrow> run cfg env (save (t\<lparr>status := Processing\<rparr>) w) tid (task_type t))"

text \<open>
  The override. \<open>task_repo.get\<close> raises NotFound for an id the repository does not hold.
\<close>

definition begin_processing ::
  "config \<Rightarrow> env \<Rightarrow> world \<Rightarrow> string \<Rightarrow> exn option \<times> world" where
  "begin_processing cfg env w tid =
     (case base_begin_processing cfg env w tid of
        (Some (ImportTaskError m), w') \<Rightarrow>
          (let w1 = emit (LogError tid m) w' in
           case tasks w1 tid of
             None \<Rightarrow> (Some (NotFound tid), w1)
           | Some t \<Rightarrow> (None, save (fail m t) w1))
      | r \<Rightarrow> r)"

section \<open>The import flow\<close>

text \<open>
  Modelled from the spec: \<open>import_image\<close> of
  xmonitor/common/scripts/image\_import/main.py, which is not among the sources (only its
  unit test is). The steps are those of section 4.4 of the specification: create the
  provisional image through the image factory and save it, set it to the interim status
  saving and save it again, transfer the bytes through the storage backend, reload and
  save the image, and on an authorization failure of the reload or of the save delete the
  locations of the record held in memory before raising the failure again.
\<close>

text \<open>
  The collaborators of the flow: the image factory, the storage backend's \<open>write\<close> (here \<open>store_write\<close>),
  and the outcome of the image repository's \<open>get\<close> and \<open>save\<close> after the transfer
  (\<open>Some e\<close>: the call raises \<open>e\<close>, as it does once the caller's context has expired).
\<close>

record import_env =
  new_image :: "(string \<times> string) list \<Rightarrow> exn + image"
  store_write :: "image \<Rightarrow> string \<Rightarrow> exn + string list"
  reload_raises :: "exn option"
  save_raises :: "exn option"

definition image_save :: "image \<Rightarrow> world \<Rightarrow> world" where
  "image_save img w = emit (ImageSave img) (w\<lparr>images := (images w)(image_id img \<mapsto> img)\<rparr>)"

text \<open>Step 2: the provisional image, saved in the status saving.\<close>

definition create_provisional ::
  "import_env \<Rightarrow> world \<Rightarrow> (string \<times> string) list \<Rightarrow> (exn + image) \<times> world" where
  "create_provisional ienv w props =
     (case new_image ienv props of
        Inl e \<Rightarrow> (Inl e, w)
      | Inr img \<Rightarrow>
          (let saving = img\<lparr>image_status := ''saving''\<rparr>
           in (Inr saving, image_save saving (image_save img w))))"

text \<open>Step 4 (a): the locations of the record held in memory, one deletion each.\<close>

definition delete_locations :: "image \<Rightarrow> world \<Rightarrow> world" where
  "delete_locations img w = emits (map (DeleteLocation (image_id img)) (locations img)) w"

text \<open>Step 4: cleanup on an authorization failure, then the failure again.\<close>

definition reconcile_failure :: "image \<Rightarrow> exn \<Rightarrow> world \<Rightarrow> (exn + string) \<times> world" where
  "reconcile_failure original e w =
     (if e = NotAuthenticated then (Inl e, delete_locations original w) else (Inl e, w))"

text \<open>Steps 3 to 5, from the provisional image on.\<close>

definition transfer_and_finalize ::
  "import_env \<Rightarrow> image \<Rightarrow> string \<Rightarrow> world \<Rightarrow> (exn + string) \<times> world" where
  "transfer_and_finalize ienv saving u w =
     (let w1 = emit (Transfer (image_id saving) u) w in
      case store_write ienv saving u of
        Inl e \<Rightarrow> (Inl e, w1)
      | Inr locs \<Rightarrow>
          (let original = saving\<lparr>image_status := ''active'', locations := locs\<rparr>;
               w2 = emit (ImageGet (image_id saving)) w1
           in case reload_raises ienv of
                Some e \<Rightarrow> reconcile_failure original e w2
              | None \<Rightarrow>
                  (case save_raises ienv of
                     Some e \<Rightarrow> reconcile_failure original e w2
                   | None \<Rightarrow> (Inr (image_id original), image_save original w2))))"

definition import_image ::
  "import_env \<Rightarrow> world \<Rightarrow> (string \<times> string) list \<Rightarrow> string \<Rightarrow> (exn + string) \<times> world" where
  "import_image ienv w props u =
     (case create_provisional ienv w props of
        (Inl e, w') \<Rightarrow> (Inl e, w')
      | (Inr saving, w') \<Rightarrow> transfer_and_finalize ienv saving u w')"

section \<open>Concrete inputs\<close>

text \<open>
  A small repository and collaborators that behave as the libraries do on it: the task
  input is the record's own, a location is accepted when it starts with \<open>http://\<close>,
  only the type \<open>import\<close> has a driver, both pools can be built and the engine runs the
  flow to its end. The variants change one collaborator each.
\<close>

definition cfg_parallel :: config where
  "cfg_parallel = \<lparr>engine_mode = ''parallel'', max_workers = 2\<rparr>"

definition cfg_serial :: config where
  "cfg_serial = \<lparr>engine_mode = ''serial'', max_workers = 2\<rparr>"

definition task1 :: task where
  "task1 = \<lparr>task_id = ''t1'', task_type = ''import'', status = Pending, message = [],
             task_input = [(''import_from'', ''http://example.com/image'')]\<rparr>"

definition task2 :: task where
  "task2 = \<lparr>task_id = ''t2'', task_type = ''import'', status = Pending, message = [],
             task_input = [(''import_from'', ''blahhttp://example.com'')]\<rparr>"

definition task3 :: task where
  "task3 = \<lparr>task_id = ''t3'', task_type = ''export'', status = Pending, message = [],
             task_input = [(''import_from'', ''http://example.com/image'')]\<rparr>"

definition world1 :: world where
  "world1 = \<lparr>tasks = [''t1'' \<mapsto> task1, ''t2'' \<mapsto> task2, ''t3'' \<mapsto> task3],
              images = Map.empty, trace = []\<rparr>"

definition env_ok :: env where
  "env_ok = \<lparr>
     unpack_task_input = (\<lambda>t. Inr (task_input t)),
     validate_location_uri = (\<lambda>u. case u of
         None \<Rightarrow> Inl (Invalid ''no location'')
       | Some s \<Rightarrow> if take 7 s = ''http://'' then Inr s else Inl (URLError ''unknown url type'')),
     driver_manager = (\<lambda>ty k. if ty = ''import'' then Inr (Flow ty k)
                               else Inl (RuntimeError ''No driver found'')),
     green_thread_pool = (\<lambda>n. None),
     thread_pool = (\<lambda>n. None),
     engines_load = (\<lambda>f m ex n. None),
     engine_run = (\<lambda>e st. (None, st))\<rparr>"

definition env_boom :: env where
  "env_boom = env_ok\<lparr>engine_run := (\<lambda>e st. (Some (OtherException ''boom''), st))\<rparr>"

definition env_expired :: env where
  "env_expired = env_ok\<lparr>engine_run := (\<lambda>e st. (Some NotAuthenticated, st))\<rparr>"

definition env_no_green :: env where
  "env_no_green = env_ok\<lparr>green_thread_pool := (\<lambda>n. Some (RuntimeError ''no eventlet''))\<rparr>"

definition env_green_broken :: env where
  "env_green_broken = env_ok\<lparr>green_thread_pool := (\<lambda>n. Some (OtherException ''ImportError''))\<rparr>"

definition image1 :: image where
  "image1 = \<lparr>image_id = ''img1'', image_status = ''queued'', locations = []\<rparr>"

definition ienv_ok :: import_env where
  "ienv_ok = \<lparr>new_image = (\<lambda>props. Inr image1),
               store_write = (\<lambda>img u. Inr [''location'']),
               reload_raises = None,
               save_raises = None\<rparr>"

definition ienv_expired :: import_env where
  "ienv_expired = ienv_ok\<lparr>reload_raises := Some NotAuthenticated\<rparr>"

section \<open>Properties\<close>


subsection \<open>Unfolding the concrete inputs and the model\<close>

lemmas example_defs = cfg_parallel_def cfg_serial_def task1_def task2_def task3_def world1_def
  env_ok_def env_boom_def env_expired_def env_no_green_def env_green_broken_def

lemmas eval_defs = get_flow_def fetch_an_executor_def load_and_run_def run_def
  base_begin_processing_def begin_processing_def get_task_def release_def on_exception_def
  save_def fail_def emit_def emits_def internal_error_def

lemmas import_defs = image1_def ienv_ok_def ienv_expired_def

subsection \<open>The state after each step\<close>

lemma tasks_emits [simp]: "tasks (emits evs w) = tasks w"
  by (simp add: emits_def)

lemma images_emits [simp]: "images (emits evs w) = images w"
  by (simp add: emits_def)

lemma trace_emits [simp]: "trace (emits evs w) = trace w @ evs"
  by (simp add: emits_def)

lemma emits_emits [simp]: "emits bs (emits as w) = emits (as @ bs) w"
  by (simp add: emits_def)

lemma emits_Nil [simp]: "emits [] w = w"
  by (simp add: emits_def)

lemma save_unfold: "save t w = emits [TaskSave t] (w\<lparr>tasks := (tasks w)(task_id t \<mapsto> t)\<rparr>)"
  by (simp add: save_def emit_def)

lemma tasks_save [simp]: "tasks (save t w) = (tasks w)(task_id t \<mapsto> t)"
  by (simp add: save_unfold)

lemma images_save [simp]: "images (save t w) = images w"
  by (simp add: save_unfold)

lemma trace_save [simp]: "trace (save t w) = trace w @ [TaskSave t]"
  by (simp add: save_unfold)

lemma trace_release: "trace (release ex w) = trace w @ (case ex of None \<Rightarrow> [] | Some p \<Rightarrow> [Shutdown p])"
  by (simp add: release_def emit_def split: option.splits)

lemma tasks_release [simp]: "tasks (release ex w) = tasks w"
  by (simp add: release_def emit_def split: option.splits)

lemma images_release [simp]: "images (release ex w) = images w"
  by (simp add: release_def emit_def split: option.splits)

lemma run_absent:
  "tasks w tid = None \<Longrightarrow> run cfg env w tid ty = (None, emits [LogDebug tid ty] w)"
  by (simp add: run_def get_task_def emit_def)

lemma run_get_flow_raises:
  "tasks w tid = Some t \<Longrightarrow> get_flow env t = Inl e \<Longrightarrow>
   run cfg env w tid ty = (Some e, emits [LogDebug tid ty, GetFlow tid] w)"
  by (simp add: run_def get_task_def emit_def)

lemma run_fetch_raises:
  "tasks w tid = Some t \<Longrightarrow> get_flow env t = Inr f \<Longrightarrow> fetch_an_executor cfg env = (Inl e, evs) \<Longrightarrow>
   run cfg env w tid ty = (Some e, emits ([LogDebug tid ty, GetFlow tid] @ evs) w)"
  by (simp add: run_def get_task_def emit_def)

lemma run_engine:
  "tasks w tid = Some t \<Longrightarrow> get_flow env t = Inr f \<Longrightarrow> fetch_an_executor cfg env = (Inr ex, evs) \<Longrightarrow>
   load_and_run cfg env f ex (emits ([LogDebug tid ty, GetFlow tid] @ evs) w) = (r, w') \<Longrightarrow>
   run cfg env w tid ty =
     (case r of None \<Rightarrow> (None, release ex w')
      | Some e \<Rightarrow> (Some e, release ex (on_exception t e w')))"
  by (simp add: run_def get_task_def emit_def split: option.splits)

lemma trace_load_and_run:
  "load_and_run cfg env f ex w = (r, w') \<Longrightarrow>
   trace w' = trace w @ [EngineLoad] \<or> trace w' = trace w @ [EngineLoad, EngineRun]"
  by (auto simp: load_and_run_def emit_def Let_def split: option.splits prod.splits)

lemma fst_load_and_run_emits:
  "fst (load_and_run cfg env f ex (emits evs w)) = fst (load_and_run cfg env f ex w)"
  by (simp add: load_and_run_def emit_def Let_def split: option.splits prod.splits)

lemma on_exception_unfold:
  "on_exception t e w =
     emits [LogError (task_id t) (exception_to_unicode e), TaskSave (fail internal_error t)]
       (w\<lparr>tasks := (tasks w)(task_id t \<mapsto> fail internal_error t)\<rparr>)"
  by (simp add: on_exception_def save_unfold emit_def emits_def fail_def)

lemma task_id_fail [simp]: "task_id (fail m t) = task_id t"
  by (simp add: fail_def)

lemma fetch_events:
  "set (snd (fetch_an_executor cfg env)) \<subseteq>
     {NewGreenThreadPool (max_workers cfg), NewThreadPool (max_workers cfg)}"
  by (auto simp: fetch_an_executor_def split: option.splits if_splits)


lemma run_engine_path:
  assumes "tasks w tid = Some t" "get_flow env t = Inr f"
    "fetch_an_executor cfg env = (Inr ex, evs)"
  shows "\<exists>eng. (eng = [EngineLoad] \<or> eng = [EngineLoad, EngineRun]) \<and>
     fst (run cfg env w tid ty) = fst (load_and_run cfg env f ex w) \<and>
     trace (snd (run cfg env w tid ty)) =
       trace w @ [LogDebug tid ty, GetFlow tid] @ evs @ eng @
         (case fst (load_and_run cfg env f ex w) of None \<Rightarrow> []
          | Some e \<Rightarrow> [LogError (task_id t) (exception_to_unicode e),
                         TaskSave (fail internal_error t)]) @
         (case ex of None \<Rightarrow> [] | Some p \<Rightarrow> [Shutdown p]) \<and>
     (\<forall>e. fst (load_and_run cfg env f ex w) = Some e \<longrightarrow>
        tasks (snd (run cfg env w tid ty)) (task_id t) = Some (fail internal_error t))"
proof -
  let ?W = "emits ([LogDebug tid ty, GetFlow tid] @ evs) w"
  obtain r w' where lr: "load_and_run cfg env f ex ?W = (r, w')"
    by (cases "load_and_run cfg env f ex ?W")
  have r: "fst (load_and_run cfg env f ex w) = r"
    using lr fst_load_and_run_emits [of cfg env f ex "[LogDebug tid ty, GetFlow tid] @ evs" w]
    by simp
  from trace_load_and_run [OF lr] obtain eng where
    eng: "eng = [EngineLoad] \<or> eng = [EngineLoad, EngineRun]" "trace w' = trace ?W @ eng"
    by auto
  have R: "run cfg env w tid ty =
     (case r of None \<Rightarrow> (None, release ex w')
      | Some e \<Rightarrow> (Some e, release ex (on_exception t e w')))"
    using run_engine [OF assms lr] .
  show ?thesis
  proof (cases r)
    case None
    with R r eng show ?thesis
      by (intro exI [of _ eng]) (simp add: trace_release)
  next
    case (Some e)
    with R r eng show ?thesis
      by (intro exI [of _ eng]) (simp add: trace_release on_exception_unfold)
  qed
qed

lemma base_present:
  "tasks w tid = Some t \<Longrightarrow>
   base_begin_processing cfg env w tid =
     run cfg env (save (t\<lparr>status := Processing\<rparr>) w) tid (task_type t)"
  by (simp add: base_begin_processing_def)

lemma begin_processing_passes:
  "fst (base_begin_processing cfg env w tid) = r \<Longrightarrow>
   (\<forall>e. r = Some e \<longrightarrow> \<not> isinstance_ImportTaskError e) \<Longrightarrow>
   begin_processing cfg env w tid = base_begin_processing cfg env w tid"
  by (cases "base_begin_processing cfg env w tid"; cases r)
     (auto simp: begin_processing_def split: exn.splits)

lemma begin_processing_ImportTaskError:
  "base_begin_processing cfg env w tid = (Some (ImportTaskError m), w') \<Longrightarrow>
   tasks w' tid = Some t \<Longrightarrow>
   begin_processing cfg env w tid = (None, save (fail m t) (emits [LogError tid m] w'))"
  by (simp add: begin_processing_def emit_def)

lemma get_flow_early:
  assumes "unpack_task_input env t = Inl e \<or>
     (\<exists>inp. unpack_task_input env t = Inr inp \<and>
        validate_location_uri env (map_of inp ''import_from'') = Inl e)"
  shows "get_flow env t = Inl (get_flow_except e)"
  using assms by (auto simp: get_flow_def)

lemma get_flow_driver:
  assumes "unpack_task_input env t = Inr inp"
    "validate_location_uri env (map_of inp ''import_from'') = Inr u"
  shows "get_flow env t =
     (case driver_manager env (task_type t)
             \<lparr>uri = u, kw_task_id = task_id t, kw_task_type = task_type t\<rparr> of
        Inl e \<Rightarrow> Inl (get_flow_except e) | Inr f \<Rightarrow> Inr f)"
  using assms by (simp add: get_flow_def)

lemma get_flow_except_RuntimeError:
  "isinstance_RuntimeError e \<Longrightarrow> get_flow_except e = NotImplementedError"
  by (cases e) simp_all

text \<open>
  Claim C5. When the repository holds no task under the id, \<open>begin_processing\<close> returns
  without raising and leaves the whole state as it was: no record is created or saved, no
  flow is resolved, no pool is built and no engine is run. \<open>_run\<close> called on its own
  with such an id does the same, apart from its debug line.
\<close>

theorem absent_task_noop:
  assumes "tasks w tid = None"
  shows "begin_processing cfg env w tid = (None, w) \<and>
         run cfg env w tid ty = (None, emits [LogDebug tid ty] w)"
  using assms
  by (simp add: begin_processing_def base_begin_processing_def run_absent)

theorem absent_task_noop_witness:
  "begin_processing cfg_parallel env_ok world1 ''t9'' = (None, world1)"
  using absent_task_noop [of world1 "''t9''" cfg_parallel env_ok]
  by (simp add: world1_def)

text \<open>
  Claim C2. When unpacking the task input or validating the location raises an exception
  that \<open>_get_flow\<close> turns into an ImportTaskError with message \<open>m\<close>,
  \<open>begin_processing\<close> returns without raising; the task is saved with the status failure
  and the message \<open>m\<close>, and nothing else happens after the failed resolution.
\<close>

theorem validation_failure_recorded:
  assumes "tasks w tid = Some t" and "task_id t = tid"
    and "unpack_task_input env (t\<lparr>status := Processing\<rparr>) = Inl e \<or>
     (\<exists>inp. unpack_task_input env (t\<lparr>status := Processing\<rparr>) = Inr inp \<and>
        validate_location_uri env (map_of inp ''import_from'') = Inl e)"
    and "get_flow_except e = ImportTaskError m"
  shows "begin_processing cfg env w tid =
     (None, emits [TaskSave (t\<lparr>status := Processing\<rparr>), LogDebug tid (task_type t),
                   GetFlow tid, LogError tid m,
                   TaskSave (t\<lparr>status := Failure, message := m\<rparr>)]
              (w\<lparr>tasks := (tasks w)(tid \<mapsto> t\<lparr>status := Failure, message := m\<rparr>)\<rparr>))"
proof -
  let ?t = "t\<lparr>status := Processing\<rparr>"
  let ?w = "save ?t w"
  have present: "tasks ?w tid = Some ?t"
    using assms(2) by simp
  have "get_flow env ?t = Inl (ImportTaskError m)"
    using get_flow_early [OF assms(3)] assms(4) by simp
  then have "run cfg env ?w tid (task_type t) =
     (Some (ImportTaskError m), emits [LogDebug tid (task_type t), GetFlow tid] ?w)"
    using run_get_flow_raises [OF present] by simp
  then have base: "base_begin_processing cfg env w tid =
     (Some (ImportTaskError m), emits [LogDebug tid (task_type t), GetFlow tid] ?w)"
    using base_present [OF assms(1)] by simp
  have "tasks (emits [LogDebug tid (task_type t), GetFlow tid] ?w) tid = Some ?t"
    using present by simp
  from begin_processing_ImportTaskError [OF base this]
  show ?thesis
    using assms(2) by (simp add: save_unfold emits_def fail_def)
qed

theorem validation_failure_recorded_witness:
  "fst (begin_processing cfg_parallel env_ok world1 ''t2'') = None \<and>
   tasks (snd (begin_processing cfg_parallel env_ok world1 ''t2'')) ''t2'' =
     Some (task2\<lparr>status := Failure, message := ''unknown url type''\<rparr>)"
  using validation_failure_recorded
    [of world1 "''t2''" task2 env_ok "URLError ''unknown url type''" "''unknown url type''"
        cfg_parallel]
  by (simp add: world1_def task2_def env_ok_def)

lemma begin_processing_engine_path:
  assumes "tasks w tid = Some t" and "task_id t = tid"
    and "get_flow env (t\<lparr>status := Processing\<rparr>) = Inr f"
    and "fetch_an_executor cfg env = (Inr ex, evs)"
    and "fst (load_and_run cfg env f ex (save (t\<lparr>status := Processing\<rparr>) w)) = r"
    and "\<forall>e. r = Some e \<longrightarrow> \<not> isinstance_ImportTaskError e"
  shows "\<exists>eng. (eng = [EngineLoad] \<or> eng = [EngineLoad, EngineRun]) \<and>
     fst (begin_processing cfg env w tid) = r \<and>
     trace (snd (begin_processing cfg env w tid)) =
       trace w @ [TaskSave (t\<lparr>status := Processing\<rparr>), LogDebug tid (task_type t), GetFlow tid]
         @ evs @ eng @
         (case r of None \<Rightarrow> []
          | Some e \<Rightarrow> [LogError tid (exception_to_unicode e),
                         TaskSave (fail internal_error (t\<lparr>status := Processing\<rparr>))]) @
         (case ex of None \<Rightarrow> [] | Some p \<Rightarrow> [Shutdown p]) \<and>
     (\<forall>e. r = Some e \<longrightarrow>
        tasks (snd (begin_processing cfg env w tid)) tid =
          Some (fail internal_error (t\<lparr>status := Processing\<rparr>)))"
proof -
  let ?t = "t\<lparr>status := Processing\<rparr>"
  let ?w = "save ?t w"
  have present: "tasks ?w tid = Some ?t"
    using assms(2) by simp
  have tid: "task_id ?t = tid"
    using assms(2) by simp
  have base: "base_begin_processing cfg env w tid = run cfg env ?w tid (task_type t)"
    using base_present [OF assms(1)] .
  have lr: "fst (load_and_run cfg env f ex ?w) = r"
    using assms(5) .
  note P = run_engine_path [OF present assms(3) assms(4), of "task_type t", unfolded lr tid]
  from P obtain eng where eng: "eng = [EngineLoad] \<or> eng = [EngineLoad, EngineRun]"
    and out: "fst (run cfg env ?w tid (task_type t)) = r"
    and tr: "trace (snd (run cfg env ?w tid (task_type t))) =
       trace ?w @ [LogDebug tid (task_type t), GetFlow tid] @ evs @ eng @
         (case r of None \<Rightarrow> []
          | Some e \<Rightarrow> [LogError tid (exception_to_unicode e), TaskSave (fail internal_error ?t)]) @
         (case ex of None \<Rightarrow> [] | Some p \<Rightarrow> [Shutdown p])"
    and st: "\<forall>e. r = Some e \<longrightarrow>
        tasks (snd (run cfg env ?w tid (task_type t))) tid = Some (fail internal_error ?t)"
    by blast
  have bp: "begin_processing cfg env w tid = run cfg env ?w tid (task_type t)"
    using begin_processing_passes [of cfg env w tid r] out assms(6) base by simp
  show ?thesis
    using eng out tr st unfolding bp by (intro exI [of _ eng]) simp
qed

text \<open>
  Claim C4. When loading or running the engine raises an exception that is not an
  ImportTaskError, the task held in memory is failed with the fixed text
  \<open>Task failed due to Internal Error\<close> and saved, and only then does the exception
  leave \<open>begin_processing\<close>. The text of the exception goes to the error log; the saved
  record carries the fixed text.
\<close>

theorem flow_exception_generic_failure:
  assumes "tasks w tid = Some t" and "task_id t = tid"
    and "get_flow env (t\<lparr>status := Processing\<rparr>) = Inr f"
    and "fetch_an_executor cfg env = (Inr ex, evs)"
    and "fst (load_and_run cfg env f ex (save (t\<lparr>status := Processing\<rparr>) w)) = Some e"
    and "\<not> isinstance_ImportTaskError e"
  shows "fst (begin_processing cfg env w tid) = Some e \<and>
     tasks (snd (begin_processing cfg env w tid)) tid =
       Some (t\<lparr>status := Failure, message := internal_error\<rparr>) \<and>
     (\<exists>before. trace (snd (begin_processing cfg env w tid)) =
        before @ [LogError tid (exception_to_unicode e),
                  TaskSave (t\<lparr>status := Failure, message := internal_error\<rparr>)] @
        (case ex of None \<Rightarrow> [] | Some p \<Rightarrow> [Shutdown p]))"
proof -
  from begin_processing_engine_path [OF assms(1-5)] assms(6)
  obtain eng where
    out: "fst (begin_processing cfg env w tid) = Some e"
    and tr: "trace (snd (begin_processing cfg env w tid)) =
       (trace w @ [TaskSave (t\<lparr>status := Processing\<rparr>), LogDebug tid (task_type t), GetFlow tid]
         @ evs @ eng) @
         [LogError tid (exception_to_unicode e),
          TaskSave (fail internal_error (t\<lparr>status := Processing\<rparr>))] @
         (case ex of None \<Rightarrow> [] | Some p \<Rightarrow> [Shutdown p])"
    and st: "tasks (snd (begin_processing cfg env w tid)) tid =
          Some (fail internal_error (t\<lparr>status := Processing\<rparr>))"
    by auto
  have f: "fail internal_error (t\<lparr>status := Processing\<rparr>) =
      t\<lparr>status := Failure, message := internal_error\<rparr>"
    by (simp add: fail_def)
  show ?thesis
    using out tr st unfolding f by blast
qed

theorem flow_exception_generic_failure_witness:
  "fst (begin_processing cfg_parallel env_boom world1 ''t1'') = Some (OtherException ''boom'') \<and>
   tasks (snd (begin_processing cfg_parallel env_boom world1 ''t1'')) ''t1'' =
     Some (task1\<lparr>status := Failure, message := ''Task failed due to Internal Error''\<rparr>)"
  using flow_exception_generic_failure
    [of world1 "''t1''" task1 env_boom
        "Flow ''import'' \<lparr>uri = ''http://example.com/image'', kw_task_id = ''t1'',
                           kw_task_type = ''import''\<rparr>"
        cfg_parallel "Some (GreenThreadPoolExecutor 2)" "[NewGreenThreadPool 2]"
        "OtherException ''boom''"]
  by (simp add: example_defs get_flow_def fetch_an_executor_def load_and_run_def
        save_unfold emit_def emits_def internal_error_def)

lemma base_get_flow_raises:
  assumes "tasks w tid = Some t" and "task_id t = tid"
    and "get_flow env (t\<lparr>status := Processing\<rparr>) = Inl e"
  shows "base_begin_processing cfg env w tid =
     (Some e, emits [TaskSave (t\<lparr>status := Processing\<rparr>), LogDebug tid (task_type t), GetFlow tid]
                (w\<lparr>tasks := (tasks w)(tid \<mapsto> t\<lparr>status := Processing\<rparr>)\<rparr>))"
proof -
  let ?t = "t\<lparr>status := Processing\<rparr>"
  have present: "tasks (save ?t w) tid = Some ?t"
    using assms(2) by simp
  show ?thesis
    using run_get_flow_raises [OF present assms(3)] base_present [OF assms(1)] assms(2)
    by (simp add: save_unfold emits_def)
qed

lemma base_fetch_raises:
  assumes "tasks w tid = Some t" and "task_id t = tid"
    and "get_flow env (t\<lparr>status := Processing\<rparr>) = Inr f"
    and "fetch_an_executor cfg env = (Inl e, evs)"
  shows "base_begin_processing cfg env w tid =
     (Some e, emits ([TaskSave (t\<lparr>status := Processing\<rparr>), LogDebug tid (task_type t),
                      GetFlow tid] @ evs)
                (w\<lparr>tasks := (tasks w)(tid \<mapsto> t\<lparr>status := Processing\<rparr>)\<rparr>))"
proof -
  let ?t = "t\<lparr>status := Processing\<rparr>"
  have present: "tasks (save ?t w) tid = Some ?t"
    using assms(2) by simp
  show ?thesis
    using run_fetch_raises [OF present assms(3) assms(4)] base_present [OF assms(1)] assms(2)
    by (simp add: save_unfold emits_def)
qed

lemma begin_processing_raised:
  "base_begin_processing cfg env w tid = (Some e, w') \<Longrightarrow> \<not> isinstance_ImportTaskError e \<Longrightarrow>
   begin_processing cfg env w tid = (Some e, w')"
  using begin_processing_passes [of cfg env w tid "Some e"] by simp

text \<open>
  Claim C1, as amended. \<open>begin_processing\<close> returns without raising when the repository
  does not hold the id, when \<open>_get_flow\<close> raises an ImportTaskError (the task is then saved
  as a failure with the message of that error), and when the engine is loaded and run
  without an exception. An exception that is not an ImportTaskError, raised by
  \<open>_get_flow\<close>, by the construction of the pool, or by the engine, leaves
  \<open>begin_processing\<close> and reaches its caller.
\<close>

theorem begin_processing_raise_boundary:
  "(tasks w tid = None \<longrightarrow> fst (begin_processing cfg env w tid) = None) \<and>
   (\<forall>t. tasks w tid = Some t \<and> task_id t = tid \<longrightarrow>
      (\<forall>m. get_flow env (t\<lparr>status := Processing\<rparr>) = Inl (ImportTaskError m) \<longrightarrow>
           fst (begin_processing cfg env w tid) = None \<and>
           tasks (snd (begin_processing cfg env w tid)) tid =
             Some (t\<lparr>status := Failure, message := m\<rparr>)) \<and>
      (\<forall>e. get_flow env (t\<lparr>status := Processing\<rparr>) = Inl e \<and>
           \<not> isinstance_ImportTaskError e \<longrightarrow>
           fst (begin_processing cfg env w tid) = Some e) \<and>
      (\<forall>f e evs. get_flow env (t\<lparr>status := Processing\<rparr>) = Inr f \<and>
           fetch_an_executor cfg env = (Inl e, evs) \<and> \<not> isinstance_ImportTaskError e \<longrightarrow>
           fst (begin_processing cfg env w tid) = Some e) \<and>
      (\<forall>f ex evs r. get_flow env (t\<lparr>status := Processing\<rparr>) = Inr f \<and>
           fetch_an_executor cfg env = (Inr ex, evs) \<and>
           fst (load_and_run cfg env f ex (save (t\<lparr>status := Processing\<rparr>) w)) = r \<and>
           (\<forall>e. r = Some e \<longrightarrow> \<not> isinstance_ImportTaskError e) \<longrightarrow>
           fst (begin_processing cfg env w tid) = r))"
proof (intro conjI allI impI)
  assume "tasks w tid = None"
  then show "fst (begin_processing cfg env w tid) = None"
    by (simp add: begin_processing_def base_begin_processing_def)
next
  fix t m
  assume p: "tasks w tid = Some t \<and> task_id t = tid"
    and g: "get_flow env (t\<lparr>status := Processing\<rparr>) = Inl (ImportTaskError m)"
  from p have p1: "tasks w tid = Some t" and p2: "task_id t = tid" by simp_all
  note base = base_get_flow_raises [OF p1 p2 g, of cfg]
  have bp: "begin_processing cfg env w tid =
     (None, save (fail m (t\<lparr>status := Processing\<rparr>))
        (emits [LogError tid m]
           (emits [TaskSave (t\<lparr>status := Processing\<rparr>), LogDebug tid (task_type t), GetFlow tid]
              (w\<lparr>tasks := (tasks w)(tid \<mapsto> t\<lparr>status := Processing\<rparr>)\<rparr>))))"
    by (rule begin_processing_ImportTaskError [OF base]) simp
  show "fst (begin_processing cfg env w tid) = None"
    unfolding bp by simp
  show "tasks (snd (begin_processing cfg env w tid)) tid =
      Some (t\<lparr>status := Failure, message := m\<rparr>)"
    unfolding bp using p2 by (simp add: fail_def)
next
  fix t e
  assume p: "tasks w tid = Some t \<and> task_id t = tid"
    and g: "get_flow env (t\<lparr>status := Processing\<rparr>) = Inl e \<and> \<not> isinstance_ImportTaskError e"
  from p have p1: "tasks w tid = Some t" and p2: "task_id t = tid" by simp_all
  from g have g1: "get_flow env (t\<lparr>status := Processing\<rparr>) = Inl e"
    and g2: "\<not> isinstance_ImportTaskError e" by simp_all
  show "fst (begin_processing cfg env w tid) = Some e"
    using begin_processing_raised [OF base_get_flow_raises [OF p1 p2 g1, of cfg] g2] by simp
next
  fix t f e evs
  assume p: "tasks w tid = Some t \<and> task_id t = tid"
    and g: "get_flow env (t\<lparr>status := Processing\<rparr>) = Inr f \<and>
       fetch_an_executor cfg env = (Inl e, evs) \<and> \<not> isinstance_ImportTaskError e"
  from p have p1: "tasks w tid = Some t" and p2: "task_id t = tid" by simp_all
  from g have g1: "get_flow env (t\<lparr>status := Processing\<rparr>) = Inr f"
    and g2: "fetch_an_executor cfg env = (Inl e, evs)"
    and g3: "\<not> isinstance_ImportTaskError e" by simp_all
  show "fst (begin_processing cfg env w tid) = Some e"
    using begin_processing_raised [OF base_fetch_raises [OF p1 p2 g1 g2] g3] by simp
next
  fix t f ex evs r
  assume p: "tasks w tid = Some t \<and> task_id t = tid"
    and g: "get_flow env (t\<lparr>status := Processing\<rparr>) = Inr f \<and>
       fetch_an_executor cfg env = (Inr ex, evs) \<and>
       fst (load_and_run cfg env f ex (save (t\<lparr>status := Processing\<rparr>) w)) = r \<and>
       (\<forall>e. r = Some e \<longrightarrow> \<not> isinstance_ImportTaskError e)"
  from p have p1: "tasks w tid = Some t" and p2: "task_id t = tid" by simp_all
  from g have g1: "get_flow env (t\<lparr>status := Processing\<rparr>) = Inr f"
    and g2: "fetch_an_executor cfg env = (Inr ex, evs)"
    and g3: "fst (load_and_run cfg env f ex (save (t\<lparr>status := Processing\<rparr>) w)) = r"
    and g4: "\<forall>e. r = Some e \<longrightarrow> \<not> isinstance_ImportTaskError e" by simp_all
  from begin_processing_engine_path [OF p1 p2 g1 g2 g3 g4]
  show "fst (begin_processing cfg env w tid) = r" by blast
qed

theorem begin_processing_raise_boundary_witness:
  "fst (begin_processing cfg_serial env_ok world1 ''t1'') = None \<and>
   fst (begin_processing cfg_serial env_ok world1 ''t3'') = Some NotImplementedError"
proof -
  note B1 = begin_processing_raise_boundary [of world1 "''t1''" cfg_serial env_ok]
  note B3 = begin_processing_raise_boundary [of world1 "''t3''" cfg_serial env_ok]
  have g1: "get_flow env_ok (task1\<lparr>status := Processing\<rparr>) =
      Inr (Flow ''import'' \<lparr>uri = ''http://example.com/image'', kw_task_id = ''t1'',
                             kw_task_type = ''import''\<rparr>)"
    by (simp add: example_defs get_flow_def)
  have f1: "fetch_an_executor cfg_serial env_ok = (Inr None, [])"
    by (simp add: example_defs fetch_an_executor_def)
  have l1: "fst (load_and_run cfg_serial env_ok
      (Flow ''import'' \<lparr>uri = ''http://example.com/image'', kw_task_id = ''t1'',
                         kw_task_type = ''import''\<rparr>) None
      (save (task1\<lparr>status := Processing\<rparr>) world1)) = None"
    by (simp add: example_defs load_and_run_def)
  have p1: "tasks world1 ''t1'' = Some task1 \<and> task_id task1 = ''t1''"
    by (simp add: example_defs)
  have a: "fst (begin_processing cfg_serial env_ok world1 ''t1'') = None"
    using B1 p1 g1 f1 l1 by blast
  have g3: "get_flow env_ok (task3\<lparr>status := Processing\<rparr>) = Inl NotImplementedError"
    by (simp add: example_defs get_flow_def)
  have p3: "tasks world1 ''t3'' = Some task3 \<and> task_id task3 = ''t3''"
    by (simp add: example_defs)
  have n3: "\<not> isinstance_ImportTaskError NotImplementedError"
    by simp
  have b: "fst (begin_processing cfg_serial env_ok world1 ''t3'') = Some NotImplementedError"
    using B3 p3 g3 n3 by blast
  from a b show ?thesis ..
qed

theorem begin_processing_raises_counterexample:
  "fst (begin_processing cfg_serial env_boom world1 ''t1'') = Some (OtherException ''boom'')"
  by (simp add: example_defs eval_defs)

text \<open>
  Claim C3, as amended. When the input is accepted and the construction of the driver
  raises a RuntimeError, whatever its detail, \<open>_get_flow\<close> raises a bare
  NotImplementedError. That exception leaves \<open>_run\<close> and \<open>begin_processing\<close>: no pool
  is built, no engine is loaded or run and the image repository is untouched, and the task
  is not saved again, so it keeps the status processing under which it was dispatched.
\<close>

theorem driver_failure_not_implemented:
  assumes "tasks w tid = Some t" and "task_id t = tid"
    and "unpack_task_input env (t\<lparr>status := Processing\<rparr>) = Inr inp"
    and "validate_location_uri env (map_of inp ''import_from'') = Inr u"
    and "driver_manager env (task_type t)
           \<lparr>uri = u, kw_task_id = tid, kw_task_type = task_type t\<rparr> = Inl e"
    and "isinstance_RuntimeError e"
  shows "get_flow env (t\<lparr>status := Processing\<rparr>) = Inl NotImplementedError \<and>
     begin_processing cfg env w tid =
       (Some NotImplementedError,
        emits [TaskSave (t\<lparr>status := Processing\<rparr>), LogDebug tid (task_type t), GetFlow tid]
          (w\<lparr>tasks := (tasks w)(tid \<mapsto> t\<lparr>status := Processing\<rparr>)\<rparr>))"
proof -
  have g: "get_flow env (t\<lparr>status := Processing\<rparr>) = Inl NotImplementedError"
    using get_flow_driver [OF assms(3) assms(4)] assms(2) assms(5)
      get_flow_except_RuntimeError [OF assms(6)]
    by simp
  have n: "\<not> isinstance_ImportTaskError NotImplementedError"
    by simp
  from begin_processing_raised [OF base_get_flow_raises [OF assms(1) assms(2) g] n] g
  show ?thesis by simp
qed

theorem driver_failure_not_implemented_witness:
  "begin_processing cfg_parallel env_ok world1 ''t3'' =
     (Some NotImplementedError,
      emits [TaskSave (task3\<lparr>status := Processing\<rparr>), LogDebug ''t3'' ''export'', GetFlow ''t3'']
        (world1\<lparr>tasks := (tasks world1)(''t3'' \<mapsto> task3\<lparr>status := Processing\<rparr>)\<rparr>))"
  using driver_failure_not_implemented
    [of world1 "''t3''" task3 env_ok "[(''import_from'', ''http://example.com/image'')]"
        "''http://example.com/image''" "RuntimeError ''No driver found''" cfg_parallel]
  by (simp add: world1_def task3_def env_ok_def)

theorem unregistered_type_counterexample:
  "fst (begin_processing cfg_parallel env_ok world1 ''t3'') = Some NotImplementedError \<and>
   map_option status (tasks (snd (begin_processing cfg_parallel env_ok world1 ''t3'')) ''t3'') =
     Some Processing \<and>
   map_option status (tasks (snd (begin_processing cfg_parallel env_ok world1 ''t3'')) ''t3'') \<noteq>
     Some Failure"
  by (simp add: example_defs eval_defs)

text \<open>
  Claim C8. With a mode other than \<open>parallel\<close>, and so with the mode \<open>serial\<close>,
  \<open>_fetch_an_executor\<close> returns \<open>None\<close> and calls no pool constructor. With the mode
  \<open>parallel\<close> the first constructor called is that of the green-thread pool, with
  \<open>max_workers\<close>; when it returns, that pool is the result; when it raises a
  RuntimeError, the thread pool is constructed next with the same \<open>max_workers\<close>, and
  the outcome of that construction is the result.
\<close>

theorem fetch_an_executor_follows_mode:
  "(engine_mode cfg \<noteq> ''parallel'' \<longrightarrow> fetch_an_executor cfg env = (Inr None, [])) \<and>
   (engine_mode cfg = ''serial'' \<longrightarrow> fetch_an_executor cfg env = (Inr None, [])) \<and>
   (engine_mode cfg = ''parallel'' \<longrightarrow>
      hd (snd (fetch_an_executor cfg env)) = NewGreenThreadPool (max_workers cfg) \<and>
      snd (fetch_an_executor cfg env) \<noteq> []) \<and>
   (engine_mode cfg = ''parallel'' \<and> green_thread_pool env (max_workers cfg) = None \<longrightarrow>
      fetch_an_executor cfg env =
        (Inr (Some (GreenThreadPoolExecutor (max_workers cfg))),
         [NewGreenThreadPool (max_workers cfg)])) \<and>
   (\<forall>e. engine_mode cfg = ''parallel'' \<and> green_thread_pool env (max_workers cfg) = Some e \<and>
        isinstance_RuntimeError e \<longrightarrow>
      fetch_an_executor cfg env =
        (case thread_pool env (max_workers cfg) of
           None \<Rightarrow> Inr (Some (ThreadPoolExecutor (max_workers cfg)))
         | Some e' \<Rightarrow> Inl e',
         [NewGreenThreadPool (max_workers cfg), NewThreadPool (max_workers cfg)]))"
  by (auto simp: fetch_an_executor_def split: option.splits)

theorem fetch_an_executor_follows_mode_witness:
  "fetch_an_executor cfg_serial env_ok = (Inr None, []) \<and>
   fetch_an_executor cfg_parallel env_ok =
     (Inr (Some (GreenThreadPoolExecutor 2)), [NewGreenThreadPool 2]) \<and>
   fetch_an_executor cfg_parallel env_no_green =
     (Inr (Some (ThreadPoolExecutor 2)), [NewGreenThreadPool 2, NewThreadPool 2])"
proof -
  have a: "fetch_an_executor cfg_serial env_ok = (Inr None, [])"
    using fetch_an_executor_follows_mode [of cfg_serial env_ok]
    by (simp add: cfg_serial_def)
  have b: "fetch_an_executor cfg_parallel env_ok =
     (Inr (Some (GreenThreadPoolExecutor 2)), [NewGreenThreadPool 2])"
    using fetch_an_executor_follows_mode [of cfg_parallel env_ok]
    by (simp add: cfg_parallel_def env_ok_def)
  have g: "engine_mode cfg_parallel = ''parallel'' \<and>
      green_thread_pool env_no_green (max_workers cfg_parallel) = Some (RuntimeError ''no eventlet'') \<and>
      isinstance_RuntimeError (RuntimeError ''no eventlet'')"
    by (simp add: cfg_parallel_def env_no_green_def env_ok_def)
  have t: "thread_pool env_no_green 2 = None"
    by (simp add: env_no_green_def env_ok_def)
  have m: "max_workers cfg_parallel = 2"
    by (simp add: cfg_parallel_def)
  have c: "fetch_an_executor cfg_parallel env_no_green =
     (Inr (Some (ThreadPoolExecutor 2)), [NewGreenThreadPool 2, NewThreadPool 2])"
    using fetch_an_executor_follows_mode [of cfg_parallel env_no_green] g
    unfolding m by (auto simp: t)
  from a b c show ?thesis by simp
qed

text \<open>
  Claim C10. In the mode \<open>parallel\<close> the thread pool is constructed exactly when the
  construction of the green-thread pool raised a RuntimeError. Any other exception of
  that construction, and any exception of the construction of the thread pool, leaves
  \<open>_run\<close> as it is: the state after \<open>_run\<close> differs from the state before only by the
  trace of the calls made, so the task is neither failed nor saved, and nothing is shut
  down.
\<close>

theorem pool_fallback_only_on_RuntimeError:
  assumes "engine_mode cfg = ''parallel''"
  shows "(NewThreadPool (max_workers cfg) \<in> set (snd (fetch_an_executor cfg env))) =
       (\<exists>e. green_thread_pool env (max_workers cfg) = Some e \<and> isinstance_RuntimeError e) \<and>
     (\<forall>e. green_thread_pool env (max_workers cfg) = Some e \<and> \<not> isinstance_RuntimeError e \<longrightarrow>
        fetch_an_executor cfg env = (Inl e, [NewGreenThreadPool (max_workers cfg)])) \<and>
     (\<forall>t f e evs. tasks w tid = Some t \<and> get_flow env t = Inr f \<and>
        fetch_an_executor cfg env = (Inl e, evs) \<longrightarrow>
        run cfg env w tid ty = (Some e, emits ([LogDebug tid ty, GetFlow tid] @ evs) w))"
proof (intro conjI allI impI)
  show "(NewThreadPool (max_workers cfg) \<in> set (snd (fetch_an_executor cfg env))) =
       (\<exists>e. green_thread_pool env (max_workers cfg) = Some e \<and> isinstance_RuntimeError e)"
    using assms by (auto simp: fetch_an_executor_def split: option.splits)
next
  fix e
  assume "green_thread_pool env (max_workers cfg) = Some e \<and> \<not> isinstance_RuntimeError e"
  then show "fetch_an_executor cfg env = (Inl e, [NewGreenThreadPool (max_workers cfg)])"
    using assms by (simp add: fetch_an_executor_def)
next
  fix t f e evs
  assume "tasks w tid = Some t \<and> get_flow env t = Inr f \<and>
        fetch_an_executor cfg env = (Inl e, evs)"
  then show "run cfg env w tid ty = (Some e, emits ([LogDebug tid ty, GetFlow tid] @ evs) w)"
    using run_fetch_raises [of w tid t env f cfg e evs ty] by simp
qed

theorem pool_fallback_only_on_RuntimeError_witness:
  "NewThreadPool 2 \<in> set (snd (fetch_an_executor cfg_parallel env_no_green)) \<and>
   NewThreadPool 2 \<notin> set (snd (fetch_an_executor cfg_parallel env_green_broken)) \<and>
   run cfg_parallel env_green_broken world1 ''t1'' ''import'' =
     (Some (OtherException ''ImportError''),
      emits [LogDebug ''t1'' ''import'', GetFlow ''t1'', NewGreenThreadPool 2] world1)"
proof -
  have par: "engine_mode cfg_parallel = ''parallel''"
    by (simp add: cfg_parallel_def)
  have m: "max_workers cfg_parallel = 2"
    by (simp add: cfg_parallel_def)
  have a: "NewThreadPool 2 \<in> set (snd (fetch_an_executor cfg_parallel env_no_green))"
    using pool_fallback_only_on_RuntimeError [OF par, of env_no_green]
    by (simp add: m env_no_green_def env_ok_def)
  have gb: "green_thread_pool env_green_broken 2 = Some (OtherException ''ImportError'')"
    by (simp add: env_green_broken_def env_ok_def)
  have b: "NewThreadPool 2 \<notin> set (snd (fetch_an_executor cfg_parallel env_green_broken))"
    using pool_fallback_only_on_RuntimeError [OF par, of env_green_broken]
    unfolding m gb by simp
  have f: "fetch_an_executor cfg_parallel env_green_broken =
      (Inl (OtherException ''ImportError''), [NewGreenThreadPool 2])"
    using pool_fallback_only_on_RuntimeError [OF par, of env_green_broken]
    unfolding m gb by simp
  have g: "get_flow env_green_broken task1 =
      Inr (Flow ''import'' \<lparr>uri = ''http://example.com/image'', kw_task_id = ''t1'',
                             kw_task_type = ''import''\<rparr>)"
    by (simp add: example_defs get_flow_def)
  have p: "tasks world1 ''t1'' = Some task1"
    by (simp add: world1_def)
  have c: "run cfg_parallel env_green_broken world1 ''t1'' ''import'' =
     (Some (OtherException ''ImportError''),
      emits [LogDebug ''t1'' ''import'', GetFlow ''t1'', NewGreenThreadPool 2] world1)"
    using pool_fallback_only_on_RuntimeError [OF par, of env_green_broken world1 "''t1''" "''import''"]
      p g f by simp
  from a b c show ?thesis by simp
qed

lemma begin_processing_post:
  "\<exists>post. trace (snd (begin_processing cfg env w tid)) =
       trace (snd (base_begin_processing cfg env w tid)) @ post \<and>
     set post \<subseteq> range (LogError tid) \<union> range TaskSave"
proof (cases "base_begin_processing cfg env w tid")
  case (Pair r w')
  show ?thesis
  proof (cases "\<exists>m. r = Some (ImportTaskError m)")
    case False
    then have "\<forall>e. r = Some e \<longrightarrow> \<not> isinstance_ImportTaskError e"
      by (auto elim: isinstance_ImportTaskError.elims)
    with Pair have "begin_processing cfg env w tid = base_begin_processing cfg env w tid"
      using begin_processing_passes [of cfg env w tid r] by simp
    then show ?thesis by simp
  next
    case True
    then obtain m where r: "r = Some (ImportTaskError m)" by blast
    show ?thesis
    proof (cases "tasks w' tid")
      case None
      with Pair r have "begin_processing cfg env w tid = (Some (NotFound tid), emits [LogError tid m] w')"
        by (simp add: begin_processing_def emit_def)
      with Pair show ?thesis
        by (intro exI [of _ "[LogError tid m]"]) simp
    next
      case (Some t)
      with Pair r have "begin_processing cfg env w tid =
          (None, save (fail m t) (emits [LogError tid m] w'))"
        using begin_processing_ImportTaskError [of cfg env w tid m w' t] by simp
      with Pair show ?thesis
        by (intro exI [of _ "[LogError tid m, TaskSave (fail m t)]"]) simp
    qed
  qed
qed

text \<open>
  Claim C9. Whenever \<open>_fetch_an_executor\<close> has returned a pool, the trace of
  \<open>begin_processing\<close> holds the shutdown of that pool, whatever loading and running the
  engine did (returned, or raised any exception): the shutdown comes after the engine was
  loaded, no shutdown precedes it, and after it only the error handling of
  \<open>begin_processing\<close> itself (an error line, a save of the task) can follow.
\<close>

theorem pool_released_on_every_exit:
  assumes "tasks w tid = Some t" and "task_id t = tid"
    and "get_flow env (t\<lparr>status := Processing\<rparr>) = Inr f"
    and "fetch_an_executor cfg env = (Inr (Some p), evs)"
  shows "\<exists>pre post. trace (snd (begin_processing cfg env w tid)) =
        trace w @ pre @ [Shutdown p] @ post \<and>
      EngineLoad \<in> set pre \<and> Shutdown p \<notin> set pre \<and>
      set post \<subseteq> range (LogError tid) \<union> range TaskSave"
proof -
  let ?t = "t\<lparr>status := Processing\<rparr>"
  let ?w = "save ?t w"
  let ?r = "fst (load_and_run cfg env f (Some p) ?w)"
  let ?h = "case ?r of None \<Rightarrow> []
     | Some e \<Rightarrow> [LogError (task_id ?t) (exception_to_unicode e), TaskSave (fail internal_error ?t)]"
  have present: "tasks ?w tid = Some ?t"
    using assms(2) by simp
  from run_engine_path [OF present assms(3) assms(4), of "task_type t"]
  obtain eng where eng: "eng = [EngineLoad] \<or> eng = [EngineLoad, EngineRun]"
    and tr: "trace (snd (run cfg env ?w tid (task_type t))) =
       trace ?w @ [LogDebug tid (task_type t), GetFlow tid] @ evs @ eng @ ?h @
         (case Some p of None \<Rightarrow> [] | Some p \<Rightarrow> [Shutdown p])"
    by blast
  let ?pre = "[TaskSave ?t, LogDebug tid (task_type t), GetFlow tid] @ evs @ eng @ ?h"
  have base: "trace (snd (base_begin_processing cfg env w tid)) = trace w @ ?pre @ [Shutdown p]"
    using tr base_present [OF assms(1), of cfg env] by simp
  from begin_processing_post [of cfg env w tid] obtain post where
    post: "trace (snd (begin_processing cfg env w tid)) =
       trace (snd (base_begin_processing cfg env w tid)) @ post"
      "set post \<subseteq> range (LogError tid) \<union> range TaskSave"
    by blast
  have evs: "set evs \<subseteq> {NewGreenThreadPool (max_workers cfg), NewThreadPool (max_workers cfg)}"
    using fetch_events [of cfg env] assms(4) by simp
  have h: "Shutdown p \<notin> set ?h"
    by (cases ?r) simp_all
  have a: "EngineLoad \<in> set ?pre"
    using eng by auto
  have b: "Shutdown p \<notin> set ?pre"
    using eng evs h by auto
  have c: "trace (snd (begin_processing cfg env w tid)) = trace w @ ?pre @ [Shutdown p] @ post"
    using post(1) base by simp
  from a b c post(2) show ?thesis by blast
qed

theorem pool_released_on_every_exit_witness:
  "\<exists>pre post. trace (snd (begin_processing cfg_parallel env_boom world1 ''t1'')) =
        trace world1 @ pre @ [Shutdown (GreenThreadPoolExecutor 2)] @ post \<and>
      EngineLoad \<in> set pre \<and> Shutdown (GreenThreadPoolExecutor 2) \<notin> set pre \<and>
      set post \<subseteq> range (LogError ''t1'') \<union> range TaskSave"
proof -
  have p: "tasks world1 ''t1'' = Some task1"
    by (simp add: world1_def)
  have i: "task_id task1 = ''t1''"
    by (simp add: task1_def)
  have g: "get_flow env_boom (task1\<lparr>status := Processing\<rparr>) =
      Inr (Flow ''import'' \<lparr>uri = ''http://example.com/image'', kw_task_id = ''t1'',
                             kw_task_type = ''import''\<rparr>)"
    by (simp add: example_defs get_flow_def)
  have f: "fetch_an_executor cfg_parallel env_boom =
      (Inr (Some (GreenThreadPoolExecutor 2)), [NewGreenThreadPool 2])"
    by (simp add: example_defs fetch_an_executor_def)
  show ?thesis
    by (rule pool_released_on_every_exit [OF p i g f])
qed

lemma image_save_unfold:
  "image_save img w = emits [ImageSave img] (w\<lparr>images := (images w)(image_id img \<mapsto> img)\<rparr>)"
  by (simp add: image_save_def emit_def)

lemma create_provisional_ok:
  assumes "new_image ienv props = Inr img"
  shows "create_provisional ienv w props =
     (Inr (img\<lparr>image_status := ''saving''\<rparr>),
      emits [ImageSave img, ImageSave (img\<lparr>image_status := ''saving''\<rparr>)]
        (w\<lparr>images := (images w)(image_id img \<mapsto> img\<lparr>image_status := ''saving''\<rparr>)\<rparr>))"
  using assms by (simp add: create_provisional_def image_save_unfold emits_def Let_def)

lemma count_list_DeleteLocation:
  "count_list (map (DeleteLocation i) locs) (DeleteLocation i l) = count_list locs l"
  by (induction locs) simp_all

lemma count_list_append': "count_list (xs @ ys) a = count_list xs a + count_list ys a"
  by (induction xs) simp_all

lemma transfer_trace:
  "\<exists>rest. trace (snd (transfer_and_finalize ienv saving u w)) =
       trace w @ [Transfer (image_id saving) u] @ rest \<and>
     (\<forall>i v. Transfer i v \<notin> set rest)"
proof (cases "store_write ienv saving u")
  case (Inl e)
  then show ?thesis
    by (simp add: transfer_and_finalize_def emit_def)
next
  case (Inr locs)
  then show ?thesis
    by (cases "reload_raises ienv"; cases "save_raises ienv")
       (auto simp: transfer_and_finalize_def reconcile_failure_def delete_locations_def
          image_save_unfold emit_def Let_def)
qed

text \<open>
  Claim C7. Unless the image factory fails, in which case nothing is transferred, an import
  run saves the new image, then saves it in the status \<open>saving\<close>, and only then starts
  the transfer: the repository handed to the transfer step holds the image in the status
  \<open>saving\<close>, the trace shows the two saves before the transfer, and no second transfer
  follows.
\<close>

theorem saving_before_transfer:
  "(\<forall>e. new_image ienv props = Inl e \<longrightarrow> import_image ienv w props u = (Inl e, w)) \<and>
   (\<forall>img. new_image ienv props = Inr img \<longrightarrow>
      fst (create_provisional ienv w props) = Inr (img\<lparr>image_status := ''saving''\<rparr>) \<and>
      images (snd (create_provisional ienv w props)) (image_id img) =
        Some (img\<lparr>image_status := ''saving''\<rparr>) \<and>
      import_image ienv w props u =
        transfer_and_finalize ienv (img\<lparr>image_status := ''saving''\<rparr>) u
          (snd (create_provisional ienv w props)) \<and>
      (\<exists>rest. trace (snd (import_image ienv w props u)) =
         trace w @ [ImageSave img, ImageSave (img\<lparr>image_status := ''saving''\<rparr>),
                    Transfer (image_id img) u] @ rest \<and>
         (\<forall>i v. Transfer i v \<notin> set rest)))"
proof (intro conjI allI impI)
  fix e
  assume "new_image ienv props = Inl e"
  then show "import_image ienv w props u = (Inl e, w)"
    by (simp add: import_image_def create_provisional_def)
next
  fix img
  assume n: "new_image ienv props = Inr img"
  let ?s = "img\<lparr>image_status := ''saving''\<rparr>"
  note c = create_provisional_ok [OF n, of w]
  show "fst (create_provisional ienv w props) = Inr ?s"
    unfolding c by simp
  show "images (snd (create_provisional ienv w props)) (image_id img) = Some ?s"
    unfolding c by simp
  show i: "import_image ienv w props u =
      transfer_and_finalize ienv ?s u (snd (create_provisional ienv w props))"
    unfolding c by (simp add: import_image_def c)
  from transfer_trace [of ienv ?s u "snd (create_provisional ienv w props)"]
  obtain rest where
    "trace (snd (transfer_and_finalize ienv ?s u (snd (create_provisional ienv w props)))) =
       trace (snd (create_provisional ienv w props)) @ [Transfer (image_id ?s) u] @ rest"
    "\<forall>i v. Transfer i v \<notin> set rest"
    by blast
  then show "\<exists>rest. trace (snd (import_image ienv w props u)) =
         trace w @ [ImageSave img, ImageSave ?s, Transfer (image_id img) u] @ rest \<and>
         (\<forall>i v. Transfer i v \<notin> set rest)"
    unfolding i unfolding c by (intro exI [of _ rest]) simp
qed

theorem saving_before_transfer_witness:
  "images (snd (create_provisional ienv_ok world1 [])) ''img1'' =
     Some (image1\<lparr>image_status := ''saving''\<rparr>) \<and>
   (\<exists>rest. trace (snd (import_image ienv_ok world1 [] ''http://example.com/image'')) =
      trace world1 @ [ImageSave image1, ImageSave (image1\<lparr>image_status := ''saving''\<rparr>),
                      Transfer ''img1'' ''http://example.com/image''] @ rest \<and>
      (\<forall>i v. Transfer i v \<notin> set rest))"
proof -
  have n: "new_image ienv_ok [] = Inr image1"
    by (simp add: ienv_ok_def)
  have i: "image_id image1 = ''img1''"
    by (simp add: image1_def)
  from saving_before_transfer [of ienv_ok "[]" world1 "''http://example.com/image''"] n
  show ?thesis
    unfolding i [symmetric] by blast
qed

lemma transfer_expired:
  assumes "store_write ienv saving u = Inr locs"
    and "reload_raises ienv = Some NotAuthenticated \<or>
         (reload_raises ienv = None \<and> save_raises ienv = Some NotAuthenticated)"
  shows "transfer_and_finalize ienv saving u w =
     (Inl NotAuthenticated,
      emits ([Transfer (image_id saving) u, ImageGet (image_id saving)] @
             map (DeleteLocation (image_id saving)) locs) w)"
  using assms
  by (auto simp: transfer_and_finalize_def reconcile_failure_def delete_locations_def
        emit_def Let_def)

text \<open>
  Claim C6. When the transfer has written its locations and the reload or the save that
  follows raises NotAuthenticated, the import run ends by raising NotAuthenticated, and
  by then it has requested, after the transfer, the deletion of the locations the
  transfer returned for the record held in memory, each as often as it is listed (once
  when the locations are distinct) and of no others; the copy in the repository, still
  in the status \<open>saving\<close> with the locations it was created with, is not consulted. An
  engine that raises what the flow raised makes the executor save the task as a failure
  and hand the NotAuthenticated on to its caller.
\<close>

theorem expired_token_cleanup:
  assumes "new_image ienv props = Inr img"
    and "store_write ienv (img\<lparr>image_status := ''saving''\<rparr>) u = Inr locs"
    and "reload_raises ienv = Some NotAuthenticated \<or>
         (reload_raises ienv = None \<and> save_raises ienv = Some NotAuthenticated)"
    and "tasks w tid = Some t" and "task_id t = tid"
    and "get_flow env (t\<lparr>status := Processing\<rparr>) = Inr f"
    and "fetch_an_executor cfg env = (Inr ex, evs)"
    and "fst (load_and_run cfg env f ex (save (t\<lparr>status := Processing\<rparr>) w)) =
         (case fst (import_image ienv wi props u) of Inl x \<Rightarrow> Some x | Inr i \<Rightarrow> None)"
  shows "import_image ienv wi props u =
       (Inl NotAuthenticated,
        emits ([ImageSave img, ImageSave (img\<lparr>image_status := ''saving''\<rparr>),
                Transfer (image_id img) u, ImageGet (image_id img)] @
               map (DeleteLocation (image_id img)) locs)
          (wi\<lparr>images := (images wi)(image_id img \<mapsto> img\<lparr>image_status := ''saving''\<rparr>)\<rparr>)) \<and>
     (\<forall>i l. count_list (trace (snd (import_image ienv wi props u))) (DeleteLocation i l) =
        count_list (trace wi) (DeleteLocation i l) +
        (if i = image_id img then count_list locs l else 0)) \<and>
     fst (begin_processing cfg env w tid) = Some NotAuthenticated \<and>
     map_option status (tasks (snd (begin_processing cfg env w tid)) tid) = Some Failure"
proof -
  let ?s = "img\<lparr>image_status := ''saving''\<rparr>"
  have imp: "import_image ienv wi props u =
       (Inl NotAuthenticated,
        emits ([ImageSave img, ImageSave ?s, Transfer (image_id img) u, ImageGet (image_id img)] @
               map (DeleteLocation (image_id img)) locs)
          (wi\<lparr>images := (images wi)(image_id img \<mapsto> ?s)\<rparr>))"
    using transfer_expired [OF assms(2) assms(3)]
    by (simp add: import_image_def create_provisional_ok [OF assms(1)])
  have cnt: "\<forall>i l. count_list (trace (snd (import_image ienv wi props u))) (DeleteLocation i l) =
        count_list (trace wi) (DeleteLocation i l) +
        (if i = image_id img then count_list locs l else 0)"
  proof (intro allI)
    fix i l
    have other: "i \<noteq> image_id img \<Longrightarrow>
        count_list (map (DeleteLocation (image_id img)) locs) (DeleteLocation i l) = 0"
      by (induction locs) simp_all
    show "count_list (trace (snd (import_image ienv wi props u))) (DeleteLocation i l) =
        count_list (trace wi) (DeleteLocation i l) +
        (if i = image_id img then count_list locs l else 0)"
      unfolding imp
      by (simp add: count_list_append' count_list_DeleteLocation other)
  qed
  have raised: "fst (load_and_run cfg env f ex (save (t\<lparr>status := Processing\<rparr>) w)) =
      Some NotAuthenticated"
    using assms(8) unfolding imp by simp
  have n: "\<forall>e. Some NotAuthenticated = Some e \<longrightarrow> \<not> isinstance_ImportTaskError e"
    by simp
  from begin_processing_engine_path [OF assms(4) assms(5) assms(6) assms(7) raised n]
  have bp: "fst (begin_processing cfg env w tid) = Some NotAuthenticated"
    and st: "tasks (snd (begin_processing cfg env w tid)) tid =
       Some (fail internal_error (t\<lparr>status := Processing\<rparr>))"
    by blast+
  have "map_option status (tasks (snd (begin_processing cfg env w tid)) tid) = Some Failure"
    unfolding st by (simp add: fail_def)
  with imp cnt bp show ?thesis by blast
qed

theorem expired_token_cleanup_witness:
  "import_image ienv_expired world1 [] ''http://example.com/image'' =
     (Inl NotAuthenticated,
      emits [ImageSave image1, ImageSave (image1\<lparr>image_status := ''saving''\<rparr>),
             Transfer ''img1'' ''http://example.com/image'', ImageGet ''img1'',
             DeleteLocation ''img1'' ''location'']
        (world1\<lparr>images := (images world1)(''img1'' \<mapsto> image1\<lparr>image_status := ''saving''\<rparr>)\<rparr>)) \<and>
   fst (begin_processing cfg_serial env_expired world1 ''t1'') = Some NotAuthenticated \<and>
   map_option status (tasks (snd (begin_processing cfg_serial env_expired world1 ''t1'')) ''t1'') =
     Some Failure"
proof -
  have a1: "new_image ienv_expired [] = Inr image1"
    by (simp add: import_defs)
  have a2: "store_write ienv_expired (image1\<lparr>image_status := ''saving''\<rparr>)
       ''http://example.com/image'' = Inr [''location'']"
    by (simp add: import_defs)
  have a3: "reload_raises ienv_expired = Some NotAuthenticated \<or>
       (reload_raises ienv_expired = None \<and> save_raises ienv_expired = Some NotAuthenticated)"
    by (simp add: import_defs)
  have a4: "tasks world1 ''t1'' = Some task1"
    by (simp add: world1_def)
  have a5: "task_id task1 = ''t1''"
    by (simp add: task1_def)
  have a6: "get_flow env_expired (task1\<lparr>status := Processing\<rparr>) =
      Inr (Flow ''import'' \<lparr>uri = ''http://example.com/image'', kw_task_id = ''t1'',
                             kw_task_type = ''import''\<rparr>)"
    by (simp add: example_defs get_flow_def)
  have a7: "fetch_an_executor cfg_serial env_expired = (Inr None, [])"
    by (simp add: example_defs fetch_an_executor_def)
  have a8: "fst (load_and_run cfg_serial env_expired
       (Flow ''import'' \<lparr>uri = ''http://example.com/image'', kw_task_id = ''t1'',
                          kw_task_type = ''import''\<rparr>) None
       (save (task1\<lparr>status := Processing\<rparr>) world1)) =
     (case fst (import_image ienv_expired world1 [] ''http://example.com/image'') of
        Inl x \<Rightarrow> Some x | Inr i \<Rightarrow> None)"
    by (simp add: example_defs import_defs load_and_run_def import_image_def
          create_provisional_def transfer_and_finalize_def reconcile_failure_def Let_def)
  have i: "image_id image1 = ''img1''"
    by (simp add: image1_def)
  from expired_token_cleanup [OF a1 a2 a3 a4 a5 a6 a7 a8]
  show ?thesis
    unfolding i by simp
qed

end
